theory Spec2Isabelle
  imports Complex_Main "HOL-Library.Word"
begin

section \<open>JavaScript values\<close>

text \<open>
  A JavaScript string is a sequence of UTF-16 code units; \<^verbatim>\<open>length\<close> counts code units.
  String literals of the source are ASCII and are written with \<open>lit\<close>.
\<close>

type_synonym cu = "16 word"
type_synonym jsstring = "cu list"

definition lit :: "string \<Rightarrow> jsstring" where
  "lit s = map of_char s"

text \<open>
  A Number is an IEEE double. \<open>Fin q\<close> carries the exact rational value of a finite
  double (both zeros are \<open>Fin 0\<close>), so that comparison of two doubles is comparison
  of their values.
\<close>

datatype jsnum = NaN | PosInf | NegInf | Fin rat

text \<open>
  The values a parsed JSON document can hold at a property, and \<open>JUndefined\<close> for a
  property that is absent. \<open>JObj\<close> stands for any object or array.
\<close>

datatype jsval = JUndefined | JNull | JBool bool | JNum jsnum | JStr jsstring | JObj

text \<open>ToBoolean, the test behind \<^verbatim>\<open>x ? a : b\<close>, \<^verbatim>\<open>!x\<close> and \<^verbatim>\<open>x && y\<close>.\<close>

fun truthy :: "jsval \<Rightarrow> bool" where
  "truthy JUndefined = False"
| "truthy JNull = False"
| "truthy (JBool b) = b"
| "truthy (JNum n) = (n \<noteq> NaN \<and> n \<noteq> Fin 0)"
| "truthy (JStr s) = (s \<noteq> [])"
| "truthy JObj = True"

text \<open>
  ToNumber. On strings and objects the conversion is the engine's (numeric-literal
  parsing with rounding, \<^verbatim>\<open>valueOf\<close>/\<^verbatim>\<open>toString\<close>); it is taken as the parameter \<open>rt\<close>.
\<close>

fun ToNumber :: "(jsval \<Rightarrow> jsnum) \<Rightarrow> jsval \<Rightarrow> jsnum" where
  "ToNumber rt JUndefined = NaN"
| "ToNumber rt JNull = Fin 0"
| "ToNumber rt (JBool b) = (if b then Fin 1 else Fin 0)"
| "ToNumber rt (JNum n) = n"
| "ToNumber rt (JStr s) = rt (JStr s)"
| "ToNumber rt JObj = rt JObj"

text \<open>The relational \<^verbatim>\<open><\<close> on Numbers: false as soon as one side is NaN.\<close>

fun num_lt :: "jsnum \<Rightarrow> jsnum \<Rightarrow> bool" where
  "num_lt NaN y = False"
| "num_lt x NaN = False"
| "num_lt NegInf y = (y \<noteq> NegInf)"
| "num_lt x NegInf = False"
| "num_lt PosInf y = False"
| "num_lt x PosInf = True"
| "num_lt (Fin p) (Fin q) = (p < q)"

text \<open>
  The literal \<^verbatim>\<open>0.3\<close> of the source denotes the double nearest to three tenths,
  \<open>5404319552844595 / 2 ^ 54\<close>.
\<close>

definition score_threshold :: rat where
  "score_threshold = 5404319552844595 / 18014398509481984"

text \<open>\<^verbatim>\<open>v < 0.3\<close> for a value \<open>v\<close> that is compared with a Number.\<close>

definition lt_threshold :: "(jsval \<Rightarrow> jsnum) \<Rightarrow> jsval \<Rightarrow> bool" where
  "lt_threshold rt v = num_lt (ToNumber rt v) (Fin score_threshold)"

section \<open>Strings: trim and the email pattern\<close>

text \<open>
  The code units that \<^verbatim>\<open>String.prototype.trim\<close> strips and that \<^verbatim>\<open>\s\<close> matches:
  WhiteSpace and LineTerminator of ECMAScript.
\<close>

definition isWhiteSpace :: "cu \<Rightarrow> bool" where
  "isWhiteSpace c =
     (c = 0x09 \<or> c = 0x0A \<or> c = 0x0B \<or> c = 0x0C \<or> c = 0x0D \<or> c = 0x20 \<or> c = 0xA0
      \<or> c = 0x1680 \<or> (0x2000 \<le> c \<and> c \<le> 0x200A) \<or> c = 0x2028 \<or> c = 0x2029
      \<or> c = 0x202F \<or> c = 0x205F \<or> c = 0x3000 \<or> c = 0xFEFF)"

definition trim :: "jsstring \<Rightarrow> jsstring" where
  "trim s = rev (dropWhile isWhiteSpace (rev (dropWhile isWhiteSpace s)))"

text \<open>
  The regular expressions the source uses are sequences of literal code units and of
  negated character classes under \<^verbatim>\<open>+\<close>, between \<^verbatim>\<open>^\<close> and \<^verbatim>\<open>$\<close>.
\<close>

datatype cls_item = ClsSpace | ClsChar cu

datatype re_item = ReChar cu | NegClassPlus "cls_item list"

fun in_item :: "cls_item \<Rightarrow> cu \<Rightarrow> bool" where
  "in_item ClsSpace c = isWhiteSpace c"
| "in_item (ClsChar d) c = (c = d)"

definition in_class :: "cls_item list \<Rightarrow> cu \<Rightarrow> bool" where
  "in_class cs c = list_ex (\<lambda>i. in_item i c) cs"

text \<open>
  \<open>re_match r s\<close>: the items \<open>r\<close> match \<open>s\<close> from its first code unit to its end.
  A class under \<^verbatim>\<open>+\<close> takes one code unit and then either stops or goes on.
\<close>

fun re_match :: "re_item list \<Rightarrow> jsstring \<Rightarrow> bool" where
  "re_match [] s = (s = [])"
| "re_match (ReChar c # r) [] = False"
| "re_match (ReChar c # r) (x # xs) = (x = c \<and> re_match r xs)"
| "re_match (NegClassPlus cs # r) [] = False"
| "re_match (NegClassPlus cs # r) (x # xs) =
     (\<not> in_class cs x \<and> (re_match r xs \<or> re_match (NegClassPlus cs # r) xs))"

definition regex_test :: "re_item list \<Rightarrow> jsstring \<Rightarrow> bool" where
  "regex_test r s = re_match r s"

text \<open>\<^verbatim>\<open>/^[^\s@]+@[^\s@]+\.[^\s@]+$/\<close>\<close>

definition emailRegex :: "re_item list" where
  "emailRegex =
     [NegClassPlus [ClsSpace, ClsChar 0x40], ReChar 0x40,
      NegClassPlus [ClsSpace, ClsChar 0x40], ReChar 0x2E,
      NegClassPlus [ClsSpace, ClsChar 0x40]]"

section \<open>The request, the configuration and the two services\<close>

text \<open>\<^verbatim>\<open>req.body\<close>, a parsed JSON object, read at its three properties.\<close>

record body =
  name :: jsval
  email :: jsval
  message :: jsval

text \<open>\<^verbatim>\<open>process.env\<close>: a variable is a string or is not set.\<close>

record env =
  EMAIL_USER :: "jsstring option"
  EMAIL_PASS :: "jsstring option"
  RECEIVER_EMAIL :: "jsstring option"
  MAILBOXLAYER_API_KEY :: "jsstring option"

fun env_truthy :: "jsstring option \<Rightarrow> bool" where
  "env_truthy None = False"
| "env_truthy (Some s) = (s \<noteq> [])"

text \<open>
  The verification service. \<^verbatim>\<open>axios.get\<close> throws (with an error message) or gives a
  response whose \<^verbatim>\<open>data\<close> is the parsed body: \<open>Nullish\<close> when it is \<^verbatim>\<open>null\<close> or
  \<^verbatim>\<open>undefined\<close>, so that reading a property of it throws, and otherwise the five
  properties the handler may read.
\<close>

record vdata =
  error :: jsval
  format_valid :: jsval
  mx_found :: jsval
  smtp_check :: jsval
  score :: jsval

datatype vbody = Nullish | Props vdata

datatype axios_result = AxiosThrew jsstring | AxiosData vbody

text \<open>The mail transport and the message handed to \<^verbatim>\<open>sendMail\<close>.\<close>

record transport =
  host :: jsstring
  port :: nat
  secure :: bool
  auth_user :: "jsstring option"
  auth_pass :: "jsstring option"
  connectionTimeout :: nat
  greetingTimeout :: nat
  socketTimeout :: nat

record mailOptions =
  mo_from :: "jsstring option"
  mo_to :: "jsstring option"
  mo_replyTo :: jsstring
  mo_subject :: jsstring
  mo_text :: jsstring
  mo_html :: jsstring

text \<open>\<^verbatim>\<open>sendMail\<close> resolves, or rejects with an error whose message is given.\<close>

datatype send_result = SendOk | SendThrew jsstring

text \<open>The external calls a run of the handler makes, in order.\<close>

datatype call = Verify jsstring | Send transport mailOptions

text \<open>
  What the handler does with the request: it answers with a status and the envelope
  \<^verbatim>\<open>{ success, message }\<close>, or it throws outside every \<^verbatim>\<open>try\<close> and sends nothing.
\<close>

datatype outcome = Response nat bool jsstring | Unhandled

type_synonym result = "outcome \<times> call list"

section \<open>The contact handler (strict variant)\<close>

text \<open>\<^verbatim>\<open>x = x ? x.trim() : ''\<close>; a truthy value that is no string has no \<^verbatim>\<open>trim\<close>.\<close>

fun trim_field :: "jsval \<Rightarrow> jsstring option" where
  "trim_field (JStr s) = Some (if s \<noteq> [] then trim s else [])"
| "trim_field v = (if truthy v then None else Some [])"

definition verificationUrl :: "jsstring \<Rightarrow> jsstring \<Rightarrow> jsstring" where
  "verificationUrl mailboxApiKey email' =
     lit ''https://apilayer.net/api/check?access_key='' @ mailboxApiKey
     @ lit ''&email='' @ email' @ lit ''&smtp=1&format=1''"

definition createTransport :: "env \<Rightarrow> transport" where
  "createTransport e =
     \<lparr>host = lit ''smtp.gmail.com'', port = 465, secure = True,
      auth_user = EMAIL_USER e, auth_pass = EMAIL_PASS e,
      connectionTimeout = 10000, greetingTimeout = 10000, socketTimeout = 10000\<rparr>"

definition mkMailOptions :: "env \<Rightarrow> jsstring \<Rightarrow> jsstring \<Rightarrow> jsstring \<Rightarrow> mailOptions" where
  "mkMailOptions e name' email' message' =
     \<lparr>mo_from = EMAIL_USER e,
      mo_to = RECEIVER_EMAIL e,
      mo_replyTo = email',
      mo_subject = lit ''Portfolio Contact: Message from '' @ name',
      mo_text =
        lit ''You have received a new message from your portfolio contact form.''
        @ [0x0A, 0x0A] @ lit ''Name: '' @ name' @ [0x0A] @ lit ''User Email: '' @ email'
        @ [0x0A, 0x0A] @ lit ''Message:'' @ [0x0A] @ message',
      mo_html =
        lit ''<h3>New Portfolio Message</h3><p><strong>Name:</strong> '' @ name'
        @ lit ''</p><p><strong>Email:</strong> '' @ email'
        @ lit ''</p><p><strong>Message:</strong><br/>'' @ message' @ lit ''</p>''\<rparr>"

text \<open>Step 6 of the handler: build the transport and the message, send, answer.\<close>

definition dispatch ::
  "env \<Rightarrow> (transport \<Rightarrow> mailOptions \<Rightarrow> send_result) \<Rightarrow> jsstring \<Rightarrow> jsstring \<Rightarrow> jsstring
     \<Rightarrow> call list \<Rightarrow> result" where
  "dispatch e sendMail name' email' message' calls =
     (let transporter = createTransport e;
          mo = mkMailOptions e name' email' message'
      in case sendMail transporter mo of
           SendOk \<Rightarrow>
             (Response 200 True (lit ''Message sent successfully!''),
              calls @ [Send transporter mo])
         | SendThrew m \<Rightarrow>
             (Response 500 False (lit ''Internal server error: '' @ m),
              calls @ [Send transporter mo]))"

text \<open>
  Step 5: the verification call and the checks on its response. A throw inside the
  inner \<^verbatim>\<open>try\<close> (the call itself, or reading a property of a nullish body) is caught
  by the inner \<^verbatim>\<open>catch\<close>. Every path that leaves the inner \<^verbatim>\<open>try\<close> without
  returning has set \<^verbatim>\<open>shouldSend\<close>, so the test after it never fires.
\<close>

definition verify_and_send ::
  "(jsval \<Rightarrow> jsnum) \<Rightarrow> env \<Rightarrow> (jsstring \<Rightarrow> axios_result)
     \<Rightarrow> (transport \<Rightarrow> mailOptions \<Rightarrow> send_result)
     \<Rightarrow> jsstring \<Rightarrow> jsstring \<Rightarrow> jsstring \<Rightarrow> jsstring \<Rightarrow> result" where
  "verify_and_send rt e axios_get sendMail mailboxApiKey name' email' message' =
     (let url = verificationUrl mailboxApiKey email';
          failed = (Response 500 False
            (lit ''Email verification failed. Please check your email or try again later.''),
            [Verify url])
      in case axios_get url of
           AxiosThrew m \<Rightarrow> failed
         | AxiosData Nullish \<Rightarrow> failed
         | AxiosData (Props data) \<Rightarrow>
             if truthy (error data) then
               (Response 500 False (lit ''Email verification service unavailable.''),
                [Verify url])
             else if \<not> (truthy (format_valid data) \<and> truthy (mx_found data)) then
               (Response 400 False
                  (lit ''Email address appears invalid (MX record not found).''),
                [Verify url])
             else if lt_threshold rt (score data) then
               (Response 400 False (lit ''Email blocked by security score.''), [Verify url])
             else dispatch e sendMail name' email' message' [Verify url])"

definition handleContact ::
  "(jsval \<Rightarrow> jsnum) \<Rightarrow> env \<Rightarrow> (jsstring \<Rightarrow> axios_result)
     \<Rightarrow> (transport \<Rightarrow> mailOptions \<Rightarrow> send_result) \<Rightarrow> body \<Rightarrow> result" where
  "handleContact rt e axios_get sendMail b =
     (case trim_field (name b) of
        None \<Rightarrow> (Unhandled, [])
      | Some name' \<Rightarrow>
     (case trim_field (email b) of
        None \<Rightarrow> (Unhandled, [])
      | Some email' \<Rightarrow>
     (case trim_field (message b) of
        None \<Rightarrow> (Unhandled, [])
      | Some message' \<Rightarrow>
        if name' = [] \<or> email' = [] \<or> message' = [] then
          (Response 400 False (lit ''All fields are required.''), [])
        else if \<not> regex_test emailRegex email' then
          (Response 400 False (lit ''Invalid email format.''), [])
        else if length message' > 2000 then
          (Response 400 False (lit ''Message is too long (limit 2000 chars).''), [])
        else if \<not> env_truthy (RECEIVER_EMAIL e) then
          (Response 500 False
             (lit ''Server configuration error: No receiver email configured.''), [])
        else
          (case MAILBOXLAYER_API_KEY e of
             None \<Rightarrow>
               (Response 500 False
                  (lit ''Server configuration error: Verification key missing.''), [])
           | Some mailboxApiKey \<Rightarrow>
               if mailboxApiKey = [] then
                 (Response 500 False
                    (lit ''Server configuration error: Verification key missing.''), [])
               else verify_and_send rt e axios_get sendMail mailboxApiKey
                      name' email' message'))))"

section \<open>Vocabulary of the properties\<close>

text \<open>
  The text the handler works with after its trimming step: the trimmed string of a
  string field, the empty string of a field that is absent or otherwise falsy.
\<close>

definition trimmed :: "jsval \<Rightarrow> jsstring" where
  "trimmed v = (case v of JStr s \<Rightarrow> trim s | _ \<Rightarrow> [])"

text \<open>
  A field as the interface describes it: text, or nothing (absent, \<^verbatim>\<open>null\<close>, or
  another falsy value). A truthy value that is no string is outside it.
\<close>

definition textual :: "jsval \<Rightarrow> bool" where
  "textual v = (case v of JStr s \<Rightarrow> True | _ \<Rightarrow> \<not> truthy v)"

text \<open>The three input checks of the handler, all passed.\<close>

definition passes_validation :: "body \<Rightarrow> bool" where
  "passes_validation b =
     (trimmed (name b) \<noteq> [] \<and> trimmed (email b) \<noteq> [] \<and> trimmed (message b) \<noteq> []
      \<and> regex_test emailRegex (trimmed (email b))
      \<and> length (trimmed (message b)) \<le> 2000)"

text \<open>A code unit that \<^verbatim>\<open>[^\s@]\<close> accepts.\<close>

definition plain :: "cu \<Rightarrow> bool" where
  "plain c = (\<not> isWhiteSpace c \<and> c \<noteq> 0x40)"

text \<open>How many times a run invoked the mail-send operation.\<close>

definition sends :: "call list \<Rightarrow> nat" where
  "sends cs = length (filter (\<lambda>c. case c of Send tr mo \<Rightarrow> True | Verify u \<Rightarrow> False) cs)"

text \<open>The message the handler builds for a request.\<close>

definition the_mail :: "env \<Rightarrow> body \<Rightarrow> mailOptions" where
  "the_mail e b = mkMailOptions e (trimmed (name b)) (trimmed (email b)) (trimmed (message b))"

section \<open>Sample requests, configurations and service stubs\<close>

definition ann_body :: body where
  "ann_body = \<lparr>name = JStr (lit ''Ann''), email = JStr (lit '' ann@example.com ''),
     message = JStr (lit ''Hi'')\<rparr>"

definition blank_body :: body where
  "blank_body = \<lparr>name = JStr (lit ''  ''), email = JUndefined, message = JStr (lit ''Hi'')\<rparr>"

text \<open>The JSON body \<^verbatim>\<open>{"name": 123, "message": "Hi"}\<close>: a number as name, no email.\<close>

definition number_name_body :: body where
  "number_name_body = \<lparr>name = JNum (Fin 123), email = JUndefined, message = JStr (lit ''Hi'')\<rparr>"

definition bad_email_body :: body where
  "bad_email_body = \<lparr>name = JStr (lit ''Ann''), email = JStr (lit ''ann@examplecom''),
     message = JStr (lit ''Hi'')\<rparr>"

definition long_body :: body where
  "long_body = \<lparr>name = JStr (lit ''Ann''), email = JStr (lit ''ann@example.com''),
     message = JStr (replicate 2001 0x61)\<rparr>"

definition env_ok :: env where
  "env_ok = \<lparr>EMAIL_USER = Some (lit ''relay@gmail.com''), EMAIL_PASS = Some (lit ''app-password''),
     RECEIVER_EMAIL = Some (lit ''owner@example.org''),
     MAILBOXLAYER_API_KEY = Some (lit ''key123'')\<rparr>"

definition env_no_receiver :: env where
  "env_no_receiver = \<lparr>EMAIL_USER = Some (lit ''relay@gmail.com''),
     EMAIL_PASS = Some (lit ''app-password''), RECEIVER_EMAIL = None,
     MAILBOXLAYER_API_KEY = Some (lit ''key123'')\<rparr>"

text \<open>The double nearest to 0.9 is \<open>8106479329266893 / 2 ^ 53\<close>.\<close>

definition vdata_ok :: vdata where
  "vdata_ok = \<lparr>error = JUndefined, format_valid = JBool True, mx_found = JBool True,
     smtp_check = JBool True, score = JNum (Fin (8106479329266893 / 9007199254740992))\<rparr>"

definition vdata_no_smtp :: vdata where
  "vdata_no_smtp = vdata_ok\<lparr>smtp_check := JBool False\<rparr>"

definition vdata_no_score :: vdata where
  "vdata_no_score = \<lparr>error = JUndefined, format_valid = JBool True, mx_found = JBool True,
     smtp_check = JBool True, score = JUndefined\<rparr>"

definition vdata_error :: vdata where
  "vdata_error = \<lparr>error = JObj, format_valid = JUndefined, mx_found = JUndefined,
     smtp_check = JUndefined, score = JUndefined\<rparr>"

definition vdata_no_mx :: vdata where
  "vdata_no_mx = vdata_ok\<lparr>mx_found := JBool False\<rparr>"

definition vdata_low_score :: vdata where
  "vdata_low_score = vdata_ok\<lparr>score := JNum (Fin (1 / 10))\<rparr>"

text \<open>The address the handler asks the verification service about for \<open>ann_body\<close> under \<open>env_ok\<close>.\<close>

definition ann_url :: jsstring where
  "ann_url = verificationUrl (lit ''key123'') (lit ''ann@example.com'')"

definition axios_gives :: "vdata \<Rightarrow> jsstring \<Rightarrow> axios_result" where
  "axios_gives d url = AxiosData (Props d)"

definition axios_down :: "jsstring \<Rightarrow> axios_result" where
  "axios_down url = AxiosThrew (lit ''connect ETIMEDOUT'')"

definition send_ok :: "transport \<Rightarrow> mailOptions \<Rightarrow> send_result" where
  "send_ok tr mo = SendOk"

definition rt_nan :: "jsval \<Rightarrow> jsnum" where
  "rt_nan v = NaN"

section \<open>Facts about trimming and the email pattern\<close>

lemma trim_Nil: "trim [] = []"
  by (simp add: trim_def)

lemma trim_field_textual: "textual v \<Longrightarrow> trim_field v = Some (trimmed v)"
  by (cases v) (simp_all add: textual_def trimmed_def trim_Nil)

lemma trimmed_textual: "trimmed v \<noteq> [] \<Longrightarrow> textual v"
  by (cases v) (simp_all add: textual_def trimmed_def)

lemma trim_noop:
  assumes "s \<noteq> []" "\<not> isWhiteSpace (hd s)" "\<not> isWhiteSpace (last s)"
  shows "trim s = s"
proof -
  from assms have a: "dropWhile isWhiteSpace s = s"
    by (cases s) simp_all
  from assms have "dropWhile isWhiteSpace (rev s) = rev s"
    by (cases "rev s") (simp_all add: last_rev [symmetric])
  with a show ?thesis by (simp add: trim_def)
qed

lemma lit_nonempty: "s \<noteq> [] \<Longrightarrow> lit s \<noteq> []"
  by (simp add: lit_def)

text \<open>A class under \<^verbatim>\<open>+\<close> takes a non-empty run of code units outside the class.\<close>

lemma re_match_plus:
  "re_match (NegClassPlus cs # r) s \<longleftrightarrow>
     (\<exists>a b. s = a @ b \<and> a \<noteq> [] \<and> (\<forall>c\<in>set a. \<not> in_class cs c) \<and> re_match r b)"
proof (induction s)
  case Nil
  then show ?case by simp
next
  case (Cons x xs)
  show ?case (is "?L = ?R")
  proof
    assume ?L
    then have nx: "\<not> in_class cs x"
      and d: "re_match r xs \<or> re_match (NegClassPlus cs # r) xs" by simp_all
    from d show ?R
    proof
      assume "re_match r xs"
      with nx have "x # xs = [x] @ xs \<and> [x] \<noteq> [] \<and> (\<forall>c\<in>set [x]. \<not> in_class cs c)
          \<and> re_match r xs"
        by simp
      then show ?R by blast
    next
      assume "re_match (NegClassPlus cs # r) xs"
      with Cons.IH obtain a b where
        "xs = a @ b" "a \<noteq> []" "\<forall>c\<in>set a. \<not> in_class cs c" "re_match r b" by blast
      with nx have "x # xs = (x # a) @ b \<and> x # a \<noteq> []
          \<and> (\<forall>c\<in>set (x # a). \<not> in_class cs c) \<and> re_match r b"
        by simp
      then show ?R by blast
    qed
  next
    assume ?R
    then obtain a b where ab: "x # xs = a @ b" "a \<noteq> []"
      "\<forall>c\<in>set a. \<not> in_class cs c" "re_match r b" by blast
    then obtain a' where a: "a = x # a'" "xs = a' @ b"
      by (cases a) auto
    show ?L
    proof (cases "a' = []")
      case True
      with a ab show ?thesis by simp
    next
      case False
      with a ab have "re_match (NegClassPlus cs # r) xs"
        using Cons.IH by auto
      with a ab show ?thesis by simp
    qed
  qed
qed

lemma re_match_char:
  "re_match (ReChar c # r) s \<longleftrightarrow> (\<exists>xs. s = c # xs \<and> re_match r xs)"
  by (cases s) auto

text \<open>
  The pattern accepts exactly the strings of the shape local\<^verbatim>\<open>@\<close>domain\<^verbatim>\<open>.\<close>tld: three
  non-empty runs free of whitespace and of \<^verbatim>\<open>@\<close>, joined by one \<^verbatim>\<open>@\<close> and a dot.
\<close>

lemma emailRegex_shape:
  "regex_test emailRegex s \<longleftrightarrow>
     (\<exists>l d t. s = l @ [0x40] @ d @ [0x2E] @ t \<and> l \<noteq> [] \<and> d \<noteq> [] \<and> t \<noteq> []
        \<and> (\<forall>c\<in>set (l @ d @ t). plain c))"
  (is "?L = ?R")
proof
  assume ?L
  then show ?R
    apply (simp add: regex_test_def emailRegex_def re_match_plus re_match_char
        in_class_def plain_def)
    apply (elim exE conjE)
    subgoal for a b xs aa ba xsa
      apply (rule exI [of _ a], rule exI [of _ aa], rule exI [of _ xsa])
      by auto
    done
next
  assume ?R
  then show ?L
    apply (simp add: regex_test_def emailRegex_def re_match_plus re_match_char
        in_class_def plain_def)
    apply (elim exE conjE)
    subgoal for l d t
      apply (rule exI [of _ l], simp)
      apply (rule exI [of _ d], simp)
      done
    done
qed

section \<open>The handler on textual fields\<close>

text \<open>
  On fields that are text or nothing, the handler is the chain of its checks in the
  order of the source, on the trimmed fields.
\<close>

lemma handleContact_textual:
  assumes "textual (name b)" "textual (email b)" "textual (message b)"
  shows "handleContact rt e ag sm b =
    (if trimmed (name b) = [] \<or> trimmed (email b) = [] \<or> trimmed (message b) = [] then
       (Response 400 False (lit ''All fields are required.''), [])
     else if \<not> regex_test emailRegex (trimmed (email b)) then
       (Response 400 False (lit ''Invalid email format.''), [])
     else if length (trimmed (message b)) > 2000 then
       (Response 400 False (lit ''Message is too long (limit 2000 chars).''), [])
     else if \<not> env_truthy (RECEIVER_EMAIL e) then
       (Response 500 False
          (lit ''Server configuration error: No receiver email configured.''), [])
     else if \<not> env_truthy (MAILBOXLAYER_API_KEY e) then
       (Response 500 False
          (lit ''Server configuration error: Verification key missing.''), [])
     else verify_and_send rt e ag sm (case MAILBOXLAYER_API_KEY e of Some k \<Rightarrow> k | None \<Rightarrow> [])
            (trimmed (name b)) (trimmed (email b)) (trimmed (message b)))"
  using assms
  by (cases "MAILBOXLAYER_API_KEY e") (simp_all add: handleContact_def trim_field_textual)

lemma handleContact_valid:
  assumes "passes_validation b"
    and "RECEIVER_EMAIL e = Some rcv" "rcv \<noteq> []"
    and "MAILBOXLAYER_API_KEY e = Some key" "key \<noteq> []"
  shows "handleContact rt e ag sm b =
     verify_and_send rt e ag sm key (trimmed (name b)) (trimmed (email b)) (trimmed (message b))"
proof -
  from assms(1) have "textual (name b)" "textual (email b)" "textual (message b)"
    by (simp_all add: passes_validation_def trimmed_textual)
  from handleContact_textual [OF this] assms show ?thesis
    by (simp add: passes_validation_def)
qed

lemma lt_threshold_Fin: "lt_threshold rt (JNum (Fin q)) \<longleftrightarrow> q < score_threshold"
  by (simp add: lt_threshold_def)

lemma lt_threshold_undefined: "\<not> lt_threshold rt JUndefined"
  by (simp add: lt_threshold_def)

lemma sends_simps:
  "sends [] = 0" "sends (Verify u # cs) = sends cs" "sends (Send tr mo # cs) = Suc (sends cs)"
  by (simp_all add: sends_def)

section \<open>The sample inputs, evaluated\<close>

lemma ann_trimmed:
  "trimmed (name ann_body) = lit ''Ann''"
  "trimmed (email ann_body) = lit ''ann@example.com''"
  "trimmed (message ann_body) = lit ''Hi''"
  by (simp_all add: ann_body_def trimmed_def trim_def lit_def isWhiteSpace_def)

lemma ann_email_ok: "regex_test emailRegex (lit ''ann@example.com'')"
  by (simp add: regex_test_def emailRegex_def lit_def in_class_def isWhiteSpace_def)

lemma ann_passes: "passes_validation ann_body"
  by (simp add: passes_validation_def ann_trimmed ann_email_ok lit_nonempty) (simp add: lit_def)

lemma blank_trimmed:
  "trimmed (name blank_body) = []" "trimmed (email blank_body) = []"
  "trimmed (message blank_body) = lit ''Hi''"
  by (simp_all add: blank_body_def trimmed_def trim_def lit_def isWhiteSpace_def)

lemma blank_textual:
  "textual (name blank_body)" "textual (email blank_body)" "textual (message blank_body)"
  by (simp_all add: blank_body_def textual_def)

lemma bad_email_trimmed:
  "trimmed (name bad_email_body) = lit ''Ann''"
  "trimmed (email bad_email_body) = lit ''ann@examplecom''"
  "trimmed (message bad_email_body) = lit ''Hi''"
  by (simp_all add: bad_email_body_def trimmed_def trim_def lit_def isWhiteSpace_def)

lemma bad_email_rejected: "\<not> regex_test emailRegex (lit ''ann@examplecom'')"
  by (simp add: regex_test_def emailRegex_def lit_def in_class_def isWhiteSpace_def)

lemma long_trimmed:
  "trimmed (name long_body) = lit ''Ann''"
  "trimmed (email long_body) = lit ''ann@example.com''"
  "trimmed (message long_body) = replicate 2001 0x61"
proof -
  have "trim (replicate 2001 (0x61 :: cu)) = replicate 2001 0x61"
    by (rule trim_noop) (simp_all add: isWhiteSpace_def)
  then show "trimmed (message long_body) = replicate 2001 0x61"
    by (simp add: long_body_def trimmed_def)
qed (simp_all add: long_body_def trimmed_def trim_def lit_def isWhiteSpace_def)

lemma env_ok_simps:
  "RECEIVER_EMAIL env_ok = Some (lit ''owner@example.org'')" "lit ''owner@example.org'' \<noteq> []"
  "MAILBOXLAYER_API_KEY env_ok = Some (lit ''key123'')" "lit ''key123'' \<noteq> []"
  by (simp_all add: env_ok_def lit_def)

section \<open>Input validation\<close>

text \<open>
  When every field is text or nothing and the name, the email or the message is empty
  after trimming (an absent field counts as empty), the handler answers 400 with
  \<^verbatim>\<open>{ success: false, message: "All fields are required." }\<close> and has called neither
  the verification service nor the mail transport.
\<close>

lemma missing_field_textual:
  assumes "textual (name b)" "textual (email b)" "textual (message b)"
    and "trimmed (name b) = [] \<or> trimmed (email b) = [] \<or> trimmed (message b) = []"
  shows "handleContact rt e ag sm b = (Response 400 False (lit ''All fields are required.''), [])"
  using handleContact_textual [OF assms(1-3)] assms(4) by simp

lemma missing_field_textual_blank:
  "handleContact rt_nan env_ok axios_down send_ok blank_body
       = (Response 400 False (lit ''All fields are required.''), [])"
proof -
  have d: "trimmed (name blank_body) = [] \<or> trimmed (email blank_body) = []
        \<or> trimmed (message blank_body) = []"
    by (simp add: blank_trimmed)
  show ?thesis
    using missing_field_textual [OF blank_textual d, of rt_nan env_ok axios_down send_ok]
    by simp
qed

text \<open>
  A truthy field that is no string has no \<^verbatim>\<open>trim\<close>: the handler throws on line 157,
  158 or 159, before its first check and outside every \<^verbatim>\<open>try\<close>, and answers nothing.
\<close>

lemma nontext_name_throws:
  assumes "truthy (name b)" and "\<forall>s. name b \<noteq> JStr s"
  shows "handleContact rt e ag sm b = (Unhandled, [])"
  using assms by (cases "name b") (simp_all add: handleContact_def)

text \<open>
  C5. The property: every submission whose name, email or message is empty after
  trimming (an absent field included) is answered with 400 and
  \<^verbatim>\<open>{ success: false, message: "All fields are required." }\<close>, with no external call.
  The handler does not do so on \<^verbatim>\<open>{"name": 123, "message": "Hi"}\<close>: the email is absent,
  hence empty after trimming, but the name is a truthy number, \<^verbatim>\<open>name.trim()\<close> throws,
  and the handler sends no response at all instead of the 400.
\<close>

theorem missing_email_number_name_unhandled:
  "trimmed (email number_name_body) = []
   \<and> handleContact rt_nan env_ok axios_down send_ok number_name_body = (Unhandled, [])
   \<and> handleContact rt_nan env_ok axios_down send_ok number_name_body
       \<noteq> (Response 400 False (lit ''All fields are required.''), [])"
  by (simp add: number_name_body_def trimmed_def handleContact_def)

text \<open>
  C6. When the three trimmed fields are non-empty and the trimmed email fails the
  pattern, the handler answers 400 with
  \<^verbatim>\<open>{ success: false, message: "Invalid email format." }\<close> and has made no external call.
\<close>

theorem bad_format_rejected:
  assumes "trimmed (name b) \<noteq> []" "trimmed (email b) \<noteq> []" "trimmed (message b) \<noteq> []"
    and "\<not> regex_test emailRegex (trimmed (email b))"
  shows "handleContact rt e ag sm b = (Response 400 False (lit ''Invalid email format.''), [])"
proof -
  from assms(1-3) have "textual (name b)" "textual (email b)" "textual (message b)"
    by (simp_all add: trimmed_textual)
  from handleContact_textual [OF this] assms show ?thesis by simp
qed

theorem bad_format_rejected_witness:
  "trimmed (name bad_email_body) \<noteq> [] \<and> trimmed (email bad_email_body) \<noteq> []
   \<and> trimmed (message bad_email_body) \<noteq> []
   \<and> \<not> regex_test emailRegex (trimmed (email bad_email_body))
   \<and> handleContact rt_nan env_ok axios_down send_ok bad_email_body
       = (Response 400 False (lit ''Invalid email format.''), [])"
proof -
  have h: "trimmed (name bad_email_body) \<noteq> []" "trimmed (email bad_email_body) \<noteq> []"
    "trimmed (message bad_email_body) \<noteq> []"
    "\<not> regex_test emailRegex (trimmed (email bad_email_body))"
    by (simp_all add: bad_email_trimmed bad_email_rejected lit_nonempty)
  show ?thesis
    using bad_format_rejected [OF h, of rt_nan env_ok axios_down send_ok] h by simp
qed

text \<open>
  C7. When the request passes the presence and format checks and the trimmed message
  has more than 2000 code units, the handler answers 400 with the length-limit envelope
  and has made no external call.
\<close>

theorem long_message_rejected:
  assumes "trimmed (name b) \<noteq> []" "trimmed (email b) \<noteq> []" "trimmed (message b) \<noteq> []"
    and "regex_test emailRegex (trimmed (email b))"
    and "length (trimmed (message b)) > 2000"
  shows "handleContact rt e ag sm b =
    (Response 400 False (lit ''Message is too long (limit 2000 chars).''), [])"
proof -
  from assms(1-3) have "textual (name b)" "textual (email b)" "textual (message b)"
    by (simp_all add: trimmed_textual)
  from handleContact_textual [OF this] assms show ?thesis by simp
qed

theorem long_message_rejected_witness:
  "trimmed (name long_body) \<noteq> [] \<and> trimmed (email long_body) \<noteq> []
   \<and> trimmed (message long_body) \<noteq> []
   \<and> regex_test emailRegex (trimmed (email long_body))
   \<and> length (trimmed (message long_body)) > 2000
   \<and> handleContact rt_nan env_ok axios_down send_ok long_body
       = (Response 400 False (lit ''Message is too long (limit 2000 chars).''), [])"
proof -
  have h: "trimmed (name long_body) \<noteq> []" "trimmed (email long_body) \<noteq> []"
    "trimmed (message long_body) \<noteq> []"
    "regex_test emailRegex (trimmed (email long_body))"
    "length (trimmed (message long_body)) > 2000"
    by (simp_all add: long_trimmed ann_email_ok lit_nonempty)
  show ?thesis
    using long_message_rejected [OF h, of rt_nan env_ok axios_down send_ok] h by simp
qed

section \<open>Server configuration\<close>

text \<open>
  C4, as stated, at a concrete input: with no recipient configured and a request whose
  name is blank and whose email is absent, the handler answers 400 "All fields are
  required.", not 500. The field checks come before the configuration check.
\<close>

theorem no_receiver_invalid_fields_counterexample:
  "RECEIVER_EMAIL env_no_receiver = None
   \<and> handleContact rt_nan env_no_receiver axios_down send_ok blank_body
       = (Response 400 False (lit ''All fields are required.''), [])"
proof -
  have "trimmed (name blank_body) = [] \<or> trimmed (email blank_body) = []
        \<or> trimmed (message blank_body) = []"
    by (simp add: blank_trimmed)
  with handleContact_textual [OF blank_textual] show ?thesis
    by (simp add: env_no_receiver_def)
qed

text \<open>
  C4, amended. For every request that passes the presence, format and length checks, if
  the recipient address is not configured (unset or empty), the handler answers 500 with
  \<^verbatim>\<open>"Server configuration error: No receiver email configured."\<close> and has made no
  external call.
\<close>

theorem no_receiver_after_validation:
  assumes "passes_validation b" and "\<not> env_truthy (RECEIVER_EMAIL e)"
  shows "handleContact rt e ag sm b =
    (Response 500 False (lit ''Server configuration error: No receiver email configured.''), [])"
proof -
  from assms(1) have "textual (name b)" "textual (email b)" "textual (message b)"
    by (simp_all add: passes_validation_def trimmed_textual)
  from handleContact_textual [OF this] assms show ?thesis
    by (simp add: passes_validation_def)
qed

theorem no_receiver_after_validation_witness:
  "passes_validation ann_body \<and> \<not> env_truthy (RECEIVER_EMAIL env_no_receiver)
   \<and> handleContact rt_nan env_no_receiver axios_down send_ok ann_body =
    (Response 500 False (lit ''Server configuration error: No receiver email configured.''), [])"
proof -
  have h: "\<not> env_truthy (RECEIVER_EMAIL env_no_receiver)"
    by (simp add: env_no_receiver_def)
  show ?thesis
    using no_receiver_after_validation [OF ann_passes h, of rt_nan axios_down send_ok]
      ann_passes h by simp
qed

section \<open>Verification and dispatch\<close>

lemma ann_url_eq: "verificationUrl (lit ''key123'') (trimmed (email ann_body)) = ann_url"
  by (simp add: ann_url_def ann_trimmed)

lemma ann_gives:
  "axios_gives d (verificationUrl (lit ''key123'') (trimmed (email ann_body))) = AxiosData (Props d)"
  by (simp add: axios_gives_def)

lemma verify_and_send_pass:
  assumes "ag (verificationUrl key m) = AxiosData (Props d)"
    and "\<not> truthy (error d)" "truthy (format_valid d)" "truthy (mx_found d)"
    and "\<not> lt_threshold rt (score d)"
  shows "verify_and_send rt e ag sm key n m t = dispatch e sm n m t [Verify (verificationUrl key m)]"
  using assms by (simp add: verify_and_send_def Let_def)

lemma dispatch_calls:
  "snd (dispatch e sm n m t cs) = cs @ [Send (createTransport e) (mkMailOptions e n m t)]"
  by (simp add: dispatch_def Let_def split: send_result.split)

lemma dispatch_ok:
  "sm (createTransport e) (mkMailOptions e n m t) = SendOk \<Longrightarrow>
   dispatch e sm n m t cs = (Response 200 True (lit ''Message sent successfully!''),
      cs @ [Send (createTransport e) (mkMailOptions e n m t)])"
  by (simp add: dispatch_def Let_def)

lemma vdata_ok_simps:
  "\<not> truthy (error vdata_ok)" "truthy (format_valid vdata_ok)" "truthy (mx_found vdata_ok)"
  "score vdata_ok = JNum (Fin (8106479329266893 / 9007199254740992))"
  "score_threshold \<le> 8106479329266893 / 9007199254740992"
  by (simp_all add: vdata_ok_def score_threshold_def)

lemma vdata_no_smtp_simps:
  "\<not> truthy (error vdata_no_smtp)" "truthy (format_valid vdata_no_smtp)"
  "truthy (mx_found vdata_no_smtp)"
  "score vdata_no_smtp = JNum (Fin (8106479329266893 / 9007199254740992))"
  "score_threshold \<le> 8106479329266893 / 9007199254740992"
  "smtp_check vdata_no_smtp = JBool False"
  by (simp_all add: vdata_no_smtp_def vdata_ok_def score_threshold_def)

lemma vdata_no_score_simps:
  "\<not> truthy (error vdata_no_score)" "truthy (format_valid vdata_no_score)"
  "truthy (mx_found vdata_no_score)" "score vdata_no_score = JUndefined"
  by (simp_all add: vdata_no_score_def)

text \<open>
  C1. For a request that passes the three input checks, with the recipient and the
  verification key configured, when the verification response has no error object,
  reports the format valid and the mail exchange found and carries a score of at least
  0.3, and the mail transport accepts the message, the handler answers 200 with
  \<^verbatim>\<open>{ success: true, message: "Message sent successfully!" }\<close> after one verification
  call and one send; the message sent goes to the configured \<^verbatim>\<open>RECEIVER_EMAIL\<close> and
  its reply-to is the trimmed email of the request.
\<close>

theorem verified_submission_sent:
  assumes "passes_validation b"
    and "RECEIVER_EMAIL e = Some rcv" "rcv \<noteq> []"
    and "MAILBOXLAYER_API_KEY e = Some key" "key \<noteq> []"
    and "ag (verificationUrl key (trimmed (email b))) = AxiosData (Props d)"
    and "\<not> truthy (error d)" "truthy (format_valid d)" "truthy (mx_found d)"
    and "score d = JNum (Fin q)" "score_threshold \<le> q"
    and "sm (createTransport e) (the_mail e b) = SendOk"
  shows "handleContact rt e ag sm b =
      (Response 200 True (lit ''Message sent successfully!''),
       [Verify (verificationUrl key (trimmed (email b))), Send (createTransport e) (the_mail e b)])
    \<and> mo_to (the_mail e b) = Some rcv
    \<and> mo_replyTo (the_mail e b) = trimmed (email b)"
proof -
  from assms(10,11) have "\<not> lt_threshold rt (score d)"
    by (simp add: lt_threshold_Fin)
  with assms have "handleContact rt e ag sm b =
      dispatch e sm (trimmed (name b)) (trimmed (email b)) (trimmed (message b))
        [Verify (verificationUrl key (trimmed (email b)))]"
    by (simp add: handleContact_valid verify_and_send_pass)
  moreover from assms(12) have "sm (createTransport e)
      (mkMailOptions e (trimmed (name b)) (trimmed (email b)) (trimmed (message b))) = SendOk"
    by (simp add: the_mail_def)
  ultimately have "handleContact rt e ag sm b =
      (Response 200 True (lit ''Message sent successfully!''),
       [Verify (verificationUrl key (trimmed (email b))), Send (createTransport e) (the_mail e b)])"
    by (simp add: dispatch_ok the_mail_def)
  moreover from assms(2) have "mo_to (the_mail e b) = Some rcv"
    by (simp add: the_mail_def mkMailOptions_def)
  moreover have "mo_replyTo (the_mail e b) = trimmed (email b)"
    by (simp add: the_mail_def mkMailOptions_def)
  ultimately show ?thesis by simp
qed

theorem verified_submission_sent_witness:
  "passes_validation ann_body
   \<and> RECEIVER_EMAIL env_ok = Some (lit ''owner@example.org'') \<and> lit ''owner@example.org'' \<noteq> []
   \<and> MAILBOXLAYER_API_KEY env_ok = Some (lit ''key123'') \<and> lit ''key123'' \<noteq> []
   \<and> axios_gives vdata_ok (verificationUrl (lit ''key123'') (trimmed (email ann_body)))
       = AxiosData (Props vdata_ok)
   \<and> \<not> truthy (error vdata_ok) \<and> truthy (format_valid vdata_ok) \<and> truthy (mx_found vdata_ok)
   \<and> score vdata_ok = JNum (Fin (8106479329266893 / 9007199254740992))
   \<and> score_threshold \<le> 8106479329266893 / 9007199254740992
   \<and> send_ok (createTransport env_ok) (the_mail env_ok ann_body) = SendOk
   \<and> handleContact rt_nan env_ok (axios_gives vdata_ok) send_ok ann_body =
      (Response 200 True (lit ''Message sent successfully!''),
       [Verify (verificationUrl (lit ''key123'') (trimmed (email ann_body))),
        Send (createTransport env_ok) (the_mail env_ok ann_body)])
   \<and> mo_to (the_mail env_ok ann_body) = Some (lit ''owner@example.org'')
   \<and> mo_replyTo (the_mail env_ok ann_body) = lit ''ann@example.com''"
proof -
  have g: "axios_gives vdata_ok (verificationUrl (lit ''key123'') (trimmed (email ann_body)))
       = AxiosData (Props vdata_ok)"
    by (simp add: axios_gives_def)
  have s: "send_ok (createTransport env_ok) (the_mail env_ok ann_body) = SendOk"
    by (simp add: send_ok_def)
  show ?thesis
    using verified_submission_sent [where ag = "axios_gives vdata_ok" and sm = send_ok and rt = rt_nan,
        OF ann_passes env_ok_simps g vdata_ok_simps s]
      ann_passes env_ok_simps g vdata_ok_simps s
    by (simp add: ann_trimmed)
qed

text \<open>
  C2. For a request that passes the three input checks, with the recipient and the
  verification key configured, when the call to the verification service throws
  (unreachable, timed out), the handler answers 500 with a failure envelope and the
  mail-send operation has been invoked zero times.
\<close>

theorem verification_unreachable_blocks:
  assumes "passes_validation b"
    and "RECEIVER_EMAIL e = Some rcv" "rcv \<noteq> []"
    and "MAILBOXLAYER_API_KEY e = Some key" "key \<noteq> []"
    and "ag (verificationUrl key (trimmed (email b))) = AxiosThrew m"
  shows "handleContact rt e ag sm b =
      (Response 500 False
         (lit ''Email verification failed. Please check your email or try again later.''),
       [Verify (verificationUrl key (trimmed (email b)))])
    \<and> sends (snd (handleContact rt e ag sm b)) = 0"
  using assms by (simp add: handleContact_valid verify_and_send_def Let_def sends_simps)

theorem verification_unreachable_blocks_witness:
  "passes_validation ann_body
   \<and> RECEIVER_EMAIL env_ok = Some (lit ''owner@example.org'') \<and> lit ''owner@example.org'' \<noteq> []
   \<and> MAILBOXLAYER_API_KEY env_ok = Some (lit ''key123'') \<and> lit ''key123'' \<noteq> []
   \<and> axios_down (verificationUrl (lit ''key123'') (trimmed (email ann_body)))
       = AxiosThrew (lit ''connect ETIMEDOUT'')
   \<and> handleContact rt_nan env_ok axios_down send_ok ann_body =
      (Response 500 False
         (lit ''Email verification failed. Please check your email or try again later.''),
       [Verify (verificationUrl (lit ''key123'') (trimmed (email ann_body)))])
   \<and> sends (snd (handleContact rt_nan env_ok axios_down send_ok ann_body)) = 0"
proof -
  have g: "axios_down (verificationUrl (lit ''key123'') (trimmed (email ann_body)))
       = AxiosThrew (lit ''connect ETIMEDOUT'')"
    by (simp add: axios_down_def)
  show ?thesis
    using verification_unreachable_blocks [where ag = axios_down and sm = send_ok and rt = rt_nan,
        OF ann_passes env_ok_simps g]
      ann_passes env_ok_simps g
    by (simp add: sends_simps)
qed

text \<open>
  C3. For a request that passes the three input checks, with the recipient and the
  verification key configured, and a response of the verification service: an error
  object in it gives 500; otherwise a format-valid or mail-exchange flag that does not
  hold gives 400; otherwise a score below 0.3 gives 400; otherwise the handler goes on
  to send the message.
\<close>

theorem verification_response_decides:
  assumes "passes_validation b"
    and "RECEIVER_EMAIL e = Some rcv" "rcv \<noteq> []"
    and "MAILBOXLAYER_API_KEY e = Some key" "key \<noteq> []"
    and "ag (verificationUrl key (trimmed (email b))) = AxiosData (Props d)"
  shows "(truthy (error d) \<longrightarrow>
            handleContact rt e ag sm b =
              (Response 500 False (lit ''Email verification service unavailable.''),
               [Verify (verificationUrl key (trimmed (email b)))]))
    \<and> (\<not> truthy (error d) \<and> (\<not> truthy (format_valid d) \<or> \<not> truthy (mx_found d)) \<longrightarrow>
            handleContact rt e ag sm b =
              (Response 400 False (lit ''Email address appears invalid (MX record not found).''),
               [Verify (verificationUrl key (trimmed (email b)))]))
    \<and> (\<not> truthy (error d) \<and> truthy (format_valid d) \<and> truthy (mx_found d)
          \<and> lt_threshold rt (score d) \<longrightarrow>
            handleContact rt e ag sm b =
              (Response 400 False (lit ''Email blocked by security score.''),
               [Verify (verificationUrl key (trimmed (email b)))]))
    \<and> (\<not> truthy (error d) \<and> truthy (format_valid d) \<and> truthy (mx_found d)
          \<and> \<not> lt_threshold rt (score d) \<longrightarrow>
            snd (handleContact rt e ag sm b) =
              [Verify (verificationUrl key (trimmed (email b))),
               Send (createTransport e) (the_mail e b)])"
proof -
  have h: "handleContact rt e ag sm b = verify_and_send rt e ag sm key
      (trimmed (name b)) (trimmed (email b)) (trimmed (message b))"
    using assms(1-5) by (rule handleContact_valid)
  show ?thesis
    unfolding h using assms(6)
    by (simp add: verify_and_send_def Let_def dispatch_calls the_mail_def)
qed

theorem verification_response_decides_witness:
  "handleContact rt_nan env_ok (axios_gives vdata_error) send_ok ann_body =
     (Response 500 False (lit ''Email verification service unavailable.''), [Verify ann_url])
   \<and> handleContact rt_nan env_ok (axios_gives vdata_no_mx) send_ok ann_body =
     (Response 400 False (lit ''Email address appears invalid (MX record not found).''),
      [Verify ann_url])
   \<and> handleContact rt_nan env_ok (axios_gives vdata_low_score) send_ok ann_body =
     (Response 400 False (lit ''Email blocked by security score.''), [Verify ann_url])
   \<and> snd (handleContact rt_nan env_ok (axios_gives vdata_ok) send_ok ann_body) =
     [Verify ann_url, Send (createTransport env_ok) (the_mail env_ok ann_body)]"
proof -
  have 1: "handleContact rt_nan env_ok (axios_gives vdata_error) send_ok ann_body =
     (Response 500 False (lit ''Email verification service unavailable.''), [Verify ann_url])"
    using verification_response_decides [where ag = "axios_gives vdata_error" and sm = send_ok
        and rt = rt_nan, OF ann_passes env_ok_simps ann_gives]
    by (simp add: vdata_error_def ann_url_eq)
  have 2: "handleContact rt_nan env_ok (axios_gives vdata_no_mx) send_ok ann_body =
     (Response 400 False (lit ''Email address appears invalid (MX record not found).''),
      [Verify ann_url])"
    using verification_response_decides [where ag = "axios_gives vdata_no_mx" and sm = send_ok
        and rt = rt_nan, OF ann_passes env_ok_simps ann_gives]
    by (simp add: vdata_no_mx_def vdata_ok_def ann_url_eq)
  have 3: "handleContact rt_nan env_ok (axios_gives vdata_low_score) send_ok ann_body =
     (Response 400 False (lit ''Email blocked by security score.''), [Verify ann_url])"
    using verification_response_decides [where ag = "axios_gives vdata_low_score" and sm = send_ok
        and rt = rt_nan, OF ann_passes env_ok_simps ann_gives]
    by (simp add: vdata_low_score_def vdata_ok_def ann_url_eq lt_threshold_Fin score_threshold_def)
  have 4: "snd (handleContact rt_nan env_ok (axios_gives vdata_ok) send_ok ann_body) =
     [Verify ann_url, Send (createTransport env_ok) (the_mail env_ok ann_body)]"
    using verification_response_decides [where ag = "axios_gives vdata_ok" and sm = send_ok
        and rt = rt_nan, OF ann_passes env_ok_simps ann_gives]
    by (simp add: vdata_ok_def ann_url_eq lt_threshold_Fin score_threshold_def)
  from 1 2 3 4 show ?thesis by simp
qed

text \<open>
  C9. The \<^verbatim>\<open>smtp_check\<close> property of the verification response has no effect: changing
  it to any value leaves the handler's result the same, and a response without error
  object, with format valid, mail exchange found and score at least 0.3 leads to the
  send although its \<^verbatim>\<open>smtp_check\<close> is \<^verbatim>\<open>false\<close>.
\<close>

theorem smtp_check_ignored:
  assumes "passes_validation b"
    and "RECEIVER_EMAIL e = Some rcv" "rcv \<noteq> []"
    and "MAILBOXLAYER_API_KEY e = Some key" "key \<noteq> []"
    and "ag (verificationUrl key (trimmed (email b))) = AxiosData (Props d)"
    and "ag' (verificationUrl key (trimmed (email b))) = AxiosData (Props (d\<lparr>smtp_check := v\<rparr>))"
  shows "handleContact rt e ag' sm b = handleContact rt e ag sm b
    \<and> (\<not> truthy (error d) \<and> truthy (format_valid d) \<and> truthy (mx_found d)
        \<and> score d = JNum (Fin q) \<and> score_threshold \<le> q \<and> smtp_check d = JBool False \<longrightarrow>
        snd (handleContact rt e ag sm b) =
          [Verify (verificationUrl key (trimmed (email b))),
           Send (createTransport e) (the_mail e b)])"
proof -
  have h: "handleContact rt e ag sm b = verify_and_send rt e ag sm key
      (trimmed (name b)) (trimmed (email b)) (trimmed (message b))"
    using assms(1-5) by (rule handleContact_valid)
  have h': "handleContact rt e ag' sm b = verify_and_send rt e ag' sm key
      (trimmed (name b)) (trimmed (email b)) (trimmed (message b))"
    using assms(1-5) by (rule handleContact_valid)
  from assms(6,7) have "handleContact rt e ag' sm b = handleContact rt e ag sm b"
    unfolding h h' by (simp add: verify_and_send_def Let_def)
  moreover have "snd (handleContact rt e ag sm b) =
      [Verify (verificationUrl key (trimmed (email b))), Send (createTransport e) (the_mail e b)]"
    if "\<not> truthy (error d)" "truthy (format_valid d)" "truthy (mx_found d)"
      "score d = JNum (Fin q)" "score_threshold \<le> q"
  proof -
    from that have "\<not> lt_threshold rt (score d)"
      by (simp add: lt_threshold_Fin)
    with that assms(6) show ?thesis
      unfolding h by (simp add: verify_and_send_pass dispatch_calls the_mail_def)
  qed
  ultimately show ?thesis by simp
qed

theorem smtp_check_ignored_witness:
  "smtp_check vdata_no_smtp = JBool False
   \<and> vdata_no_smtp\<lparr>smtp_check := JBool True\<rparr> = vdata_ok
   \<and> handleContact rt_nan env_ok (axios_gives vdata_ok) send_ok ann_body
      = handleContact rt_nan env_ok (axios_gives vdata_no_smtp) send_ok ann_body
   \<and> snd (handleContact rt_nan env_ok (axios_gives vdata_no_smtp) send_ok ann_body) =
      [Verify ann_url, Send (createTransport env_ok) (the_mail env_ok ann_body)]"
proof -
  have u: "vdata_no_smtp\<lparr>smtp_check := JBool True\<rparr> = vdata_ok"
    by (simp add: vdata_no_smtp_def vdata_ok_def)
  have g: "axios_gives vdata_ok (verificationUrl (lit ''key123'') (trimmed (email ann_body)))
      = AxiosData (Props (vdata_no_smtp\<lparr>smtp_check := JBool True\<rparr>))"
    by (simp add: u axios_gives_def)
  show ?thesis
    using smtp_check_ignored [where ag = "axios_gives vdata_no_smtp" and sm = send_ok
        and rt = rt_nan and ag' = "axios_gives vdata_ok"
        and q = "8106479329266893 / 9007199254740992",
        OF ann_passes env_ok_simps ann_gives g] u vdata_no_smtp_simps
    by (simp add: ann_url_eq)
qed

text \<open>
  C10. When the verification response has no error object, reports the format valid and
  the mail exchange found, and has no \<^verbatim>\<open>score\<close> property, the comparison
  \<^verbatim>\<open>data.score < 0.3\<close> is false (the absent score converts to NaN) and the handler
  goes on to send the message.
\<close>

theorem absent_score_passes:
  assumes "passes_validation b"
    and "RECEIVER_EMAIL e = Some rcv" "rcv \<noteq> []"
    and "MAILBOXLAYER_API_KEY e = Some key" "key \<noteq> []"
    and "ag (verificationUrl key (trimmed (email b))) = AxiosData (Props d)"
    and "\<not> truthy (error d)" "truthy (format_valid d)" "truthy (mx_found d)"
    and "score d = JUndefined"
  shows "\<not> lt_threshold rt (score d)
    \<and> snd (handleContact rt e ag sm b) =
      [Verify (verificationUrl key (trimmed (email b))), Send (createTransport e) (the_mail e b)]"
proof -
  from assms(10) have s: "\<not> lt_threshold rt (score d)"
    by (simp add: lt_threshold_undefined)
  have h: "handleContact rt e ag sm b = verify_and_send rt e ag sm key
      (trimmed (name b)) (trimmed (email b)) (trimmed (message b))"
    using assms(1-5) by (rule handleContact_valid)
  from assms(6-9) s have "snd (handleContact rt e ag sm b) =
      [Verify (verificationUrl key (trimmed (email b))), Send (createTransport e) (the_mail e b)]"
    unfolding h by (simp add: verify_and_send_pass dispatch_calls the_mail_def)
  with s show ?thesis by simp
qed

theorem absent_score_passes_witness:
  "score vdata_no_score = JUndefined
   \<and> \<not> lt_threshold rt_nan (score vdata_no_score)
   \<and> snd (handleContact rt_nan env_ok (axios_gives vdata_no_score) send_ok ann_body) =
      [Verify ann_url, Send (createTransport env_ok) (the_mail env_ok ann_body)]"
  using absent_score_passes [where ag = "axios_gives vdata_no_score" and sm = send_ok
      and rt = rt_nan, OF ann_passes env_ok_simps ann_gives vdata_no_score_simps]
    vdata_no_score_simps(4)
  by (simp add: ann_url_eq)

end
